theory Spec2Isabelle
  imports Main "HOL-Library.Char_ord" "HOL-Library.List_Lexorder"
begin

section \<open>Python values used by create-ebook.py\<close>

text \<open>
  Strings are modelled as \<^typ>\<open>string\<close>; a character stands for a code point below 256.
  Every exception the source can raise is a value of \<open>py_error\<close>, and a function that can
  raise returns \<open>py_error + 'a\<close> with \<open>Inl\<close> for the exception.
\<close>

datatype py_error = NameError | ValueError | IndexError | TypeError | OSError | LibError

definition ord :: "char \<Rightarrow> nat" where
  "ord c = of_char c"

definition isspace :: "char \<Rightarrow> bool" where
  \<comment> \<open>the characters \<open>str.strip()\<close> removes: TAB..CR, FS..US, space, NEL, NBSP\<close>
  "isspace c \<longleftrightarrow> (9 \<le> ord c \<and> ord c \<le> 13) \<or> (28 \<le> ord c \<and> ord c \<le> 32)
                 \<or> ord c = 133 \<or> ord c = 160"

definition strip :: "string \<Rightarrow> string" where
  "strip s = rev (dropWhile isspace (rev (dropWhile isspace s)))"

fun split_on :: "char \<Rightarrow> string \<Rightarrow> string list" where
  \<comment> \<open>\<open>s.split(d)\<close> for a one-character separator: never the empty list\<close>
  "split_on d [] = [[]]"
| "split_on d (c # cs) =
     (if c = d then [] # split_on d cs
      else (let r = split_on d cs in (c # hd r) # tl r))"

fun join :: "string \<Rightarrow> string list \<Rightarrow> string" where
  "join sep [] = []"
| "join sep [x] = x"
| "join sep (x # y # ys) = x @ sep @ join sep (y # ys)"

fun index_of :: "'a list \<Rightarrow> 'a \<Rightarrow> nat option" where
  \<comment> \<open>\<open>xs.index(v)\<close>: the first position of \<open>v\<close>; \<open>None\<close> where Python raises ValueError\<close>
  "index_of [] v = None"
| "index_of (x # xs) v = (if x = v then Some 0 else map_option Suc (index_of xs v))"

definition replace_char :: "char \<Rightarrow> char \<Rightarrow> string \<Rightarrow> string" where
  "replace_char a b s = map (\<lambda>c. if c = a then b else c) s"

definition lower_char :: "char \<Rightarrow> char" where
  \<comment> \<open>\<open>str.lower()\<close> on code points below 256: A-Z and the Latin-1 capitals except the
      multiplication sign\<close>
  "lower_char c =
     (if (65 \<le> ord c \<and> ord c \<le> 90) \<or> (192 \<le> ord c \<and> ord c \<le> 222 \<and> ord c \<noteq> 215)
      then char_of (ord c + 32) else c)"

definition lower :: "string \<Rightarrow> string" where
  "lower s = map lower_char s"

section \<open>Paths\<close>

text \<open>
  A \<open>pathlib.Path\<close> (POSIX) is the list of its parts, as \<open>Path.parts\<close> gives them: an
  absolute path starts with the root, \<open>/\<close> or \<open>//\<close>. \<open>Path('.')\<close> has no parts.
  Paths are compared part by part.
\<close>

type_synonym path = "string list"

definition is_root :: "string \<Rightarrow> bool" where
  "is_root x \<longleftrightarrow> x = ''/'' \<or> x = ''//''"

definition path_of_str :: "string \<Rightarrow> path" where
  \<comment> \<open>\<open>Path(s)\<close>: empty parts and \<open>.\<close> are dropped; exactly two leading slashes are a
      root of their own\<close>
  "path_of_str s =
     (if take 1 s = ''/'' then
        (if take 2 s = ''//'' \<and> take 3 s \<noteq> ''///'' then [''//''] else [''/''])
      else [])
     @ filter (\<lambda>x. x \<noteq> [] \<and> x \<noteq> ''.'') (split_on CHR ''/'' s)"

definition path_str :: "path \<Rightarrow> string" where
  \<comment> \<open>\<open>str(p)\<close>\<close>
  "path_str p =
     (if p = [] then ''.''
      else if is_root (hd p) then hd p @ join ''/'' (tl p)
      else join ''/'' p)"

definition path_name :: "path \<Rightarrow> string" where
  "path_name p = (if p = [] \<or> (length p = 1 \<and> is_root (hd p)) then [] else last p)"

fun rfind :: "char \<Rightarrow> string \<Rightarrow> nat option" where
  \<comment> \<open>\<open>s.rfind(c)\<close>: the last position of \<open>c\<close>, \<open>None\<close> for Python's -1\<close>
  "rfind c [] = None"
| "rfind c (x # xs) =
     (case rfind c xs of Some i \<Rightarrow> Some (Suc i)
      | None \<Rightarrow> if x = c then Some 0 else None)"

definition path_suffix :: "path \<Rightarrow> string" where
  "path_suffix p =
     (let name = path_name p in
      case rfind CHR ''.'' name of
        None \<Rightarrow> []
      | Some i \<Rightarrow> if 0 < i \<and> i < length name - 1 then drop i name else [])"

definition path_stem :: "path \<Rightarrow> string" where
  "path_stem p =
     (let name = path_name p in
      case rfind CHR ''.'' name of
        None \<Rightarrow> name
      | Some i \<Rightarrow> if 0 < i \<and> i < length name - 1 then take i name else name)"

section \<open>Names bound in the module\<close>

text \<open>
  The names the module binds at its top level when the converter runs: its imports, the
  class, \<open>main\<close> and the global \<open>BOOK_META\<close> that \<open>main\<close> assigns, each with a
  description of the object it denotes. Reading any other name that is neither a local of
  the running function nor a builtin raises NameError.
\<close>

definition module_globals :: "(string \<times> string) list" where
  "module_globals =
     [(''os'', ''<module os>''), (''re'', ''<module re>''), (''uuid'', ''<module uuid>''),
      (''Path'', ''<class pathlib.Path>''), (''List'', ''typing.List''),
      (''Optional'', ''typing.Optional''), (''markdown'', ''<module markdown>''),
      (''epub'', ''<module ebooklib.epub>''), (''BeautifulSoup'', ''<class bs4.BeautifulSoup>''),
      (''json'', ''<module json>''), (''sys'', ''<module sys>''),
      (''MarkdownToEPUB'', ''<class MarkdownToEPUB>''), (''main'', ''<function main>''),
      (''BOOK_META'', ''<dict>'')]"

definition lookup_global :: "string \<Rightarrow> py_error + string" where
  "lookup_global n = (case map_of module_globals n of None \<Rightarrow> Inl NameError | Some v \<Rightarrow> Inr v)"

section \<open>Title resolution: \<open>_extract_title\<close>\<close>

text \<open>
  What \<open>yaml.safe_load\<close> returns: a mapping (here from keys to the \<open>str()\<close> of their
  values) or anything else.
\<close>

datatype yaml_value = YDict "(string \<times> string) list" | YOther

type_synonym yaml_loader = "string \<Rightarrow> py_error + yaml_value"

fun find_yaml_end :: "nat \<Rightarrow> string list \<Rightarrow> nat option" where
  \<comment> \<open>the loop over \<open>enumerate(lines[1:], 1)\<close>; \<open>None\<close> is \<open>yaml_end = -1\<close>\<close>
  "find_yaml_end i [] = None"
| "find_yaml_end i (l # ls) = (if strip l = ''---'' then Some i else find_yaml_end (Suc i) ls)"

definition front_matter_title :: "yaml_loader \<Rightarrow> string list \<Rightarrow> string option" where
  \<comment> \<open>lines 254-268; \<open>None\<close> when control falls through to the heading scan. The bare
      \<open>except\<close> swallows every exception of the \<open>try\<close> block. \<open>safe_load\<close> is the
      function \<open>yaml.safe_load\<close> of the YAML module, were the name \<open>yaml\<close> bound to it.\<close>
  "front_matter_title safe_load lines =
     (if lines \<noteq> [] \<and> strip (hd lines) = ''---'' then
        (case find_yaml_end 1 (tl lines) of
           None \<Rightarrow> None
         | Some yaml_end \<Rightarrow>
             (let yaml_content = join [CHR 0x0A] (take (yaml_end - 1) (tl lines)) in
              case lookup_global ''yaml'' of
                Inl e \<Rightarrow> None
              | Inr m \<Rightarrow>
                  if m \<noteq> ''<module yaml>'' then None
                  else (case safe_load yaml_content of
                          Inl e \<Rightarrow> None
                        | Inr (YDict kv) \<Rightarrow> map_of kv ''title''
                        | Inr YOther \<Rightarrow> None)))
      else None)"

fun scan_headings :: "string list \<Rightarrow> string list \<Rightarrow> py_error + string option" where
  \<comment> \<open>the loop of lines 271-278 over the remaining lines; \<open>lines\<close> is the whole list\<close>
  "scan_headings lines [] = Inr None"
| "scan_headings lines (l # rest) =
     (let line = strip l in
      if take 2 line = ''# '' then Inr (Some (strip (drop 2 line)))
      else if line \<noteq> [] then
        (case index_of lines line of
           None \<Rightarrow> Inl ValueError
         | Some i \<Rightarrow>
             if i + 1 < length lines then
               (let next_line = strip (lines ! (i + 1)) in
                if next_line \<noteq> [] \<and> list_all (\<lambda>c. c = CHR ''='') next_line
                then Inr (Some line)
                else scan_headings lines rest)
             else scan_headings lines rest)
      else scan_headings lines rest)"

definition extract_title ::
  "yaml_loader \<Rightarrow> (string \<Rightarrow> string) \<Rightarrow> string \<Rightarrow> path \<Rightarrow> py_error + string" where
  \<comment> \<open>\<open>_extract_title\<close>; \<open>str_title\<close> is the runtime's \<open>str.title\<close>\<close>
  "extract_title safe_load str_title md_content md_path =
     (let lines = split_on (CHR 0x0A) md_content in
      case front_matter_title safe_load lines of
        Some t \<Rightarrow> Inr t
      | None \<Rightarrow>
          (case scan_headings lines lines of
             Inl e \<Rightarrow> Inl e
           | Inr (Some t) \<Rightarrow> Inr t
           | Inr None \<Rightarrow>
               Inr (str_title (replace_char CHR ''-'' CHR '' ''
                                 (replace_char CHR ''_'' CHR '' '' (path_stem md_path))))))"

section \<open>Natural ordering of file names: \<open>_natural_sort_key\<close>\<close>

definition re_digit :: "char \<Rightarrow> bool" where
  \<comment> \<open>what \<open>\d\<close> matches among the code points below 256: the digits 0-9\<close>
  "re_digit c \<longleftrightarrow> 48 \<le> ord c \<and> ord c \<le> 57"

definition isdigit_char :: "char \<Rightarrow> bool" where
  \<comment> \<open>\<open>str.isdigit\<close> also holds of the superscripts two, three and one\<close>
  "isdigit_char c \<longleftrightarrow> re_digit c \<or> ord c = 178 \<or> ord c = 179 \<or> ord c = 185"

definition str_isdigit :: "string \<Rightarrow> bool" where
  "str_isdigit s \<longleftrightarrow> s \<noteq> [] \<and> list_all isdigit_char s"

fun re_split_aux :: "string \<Rightarrow> bool \<Rightarrow> string \<Rightarrow> string list" where
  \<comment> \<open>\<open>cur\<close> is the current run, reversed; the flag says whether it is a run of digits\<close>
  "re_split_aux cur False [] = [rev cur]"
| "re_split_aux cur True [] = [rev cur, []]"
| "re_split_aux cur False (c # cs) =
     (if re_digit c then rev cur # re_split_aux [c] True cs
      else re_split_aux (c # cur) False cs)"
| "re_split_aux cur True (c # cs) =
     (if re_digit c then re_split_aux (c # cur) True cs
      else rev cur # re_split_aux [c] False cs)"

definition re_split_digits :: "string \<Rightarrow> string list" where
  \<comment> \<open>\<open>re.split(r"(\d+)", text)\<close>: text, digits, text, ..., text; the texts may be empty\<close>
  "re_split_digits text = re_split_aux [] False text"

definition int_of_digits :: "string \<Rightarrow> py_error + int" where
  \<comment> \<open>\<open>int(c)\<close> for a string \<open>c\<close> with \<open>c.isdigit()\<close>: a superscript digit is no literal\<close>
  "int_of_digits s =
     (if s \<noteq> [] \<and> list_all re_digit s
      then Inr (foldl (\<lambda>a c. 10 * a + int (ord c - 48)) 0 s)
      else Inl ValueError)"

datatype token = TInt int | TStr string

definition sort_token :: "string \<Rightarrow> py_error + token" where
  "sort_token c =
     (if str_isdigit c then (case int_of_digits c of Inl e \<Rightarrow> Inl e | Inr n \<Rightarrow> Inr (TInt n))
      else Inr (TStr (lower c)))"

fun collect :: "(py_error + 'a) list \<Rightarrow> py_error + 'a list" where
  \<comment> \<open>a list comprehension whose elements may raise: the first exception ends it\<close>
  "collect [] = Inr []"
| "collect (Inl e # rs) = Inl e"
| "collect (Inr v # rs) = (case collect rs of Inl e \<Rightarrow> Inl e | Inr vs \<Rightarrow> Inr (v # vs))"

definition natural_sort_key :: "string \<Rightarrow> py_error + token list" where
  "natural_sort_key text = collect (map sort_token (re_split_digits text))"

fun token_lt :: "token \<Rightarrow> token \<Rightarrow> py_error + bool" where
  \<comment> \<open>\<open><\<close> on the elements of a key: an int and a str do not compare\<close>
  "token_lt (TInt a) (TInt b) = Inr (a < b)"
| "token_lt (TStr a) (TStr b) = Inr (a < b)"
| "token_lt (TInt a) (TStr b) = Inl TypeError"
| "token_lt (TStr a) (TInt b) = Inl TypeError"

fun key_lt :: "token list \<Rightarrow> token list \<Rightarrow> py_error + bool" where
  \<comment> \<open>\<open><\<close> on lists: the first pair of unequal elements decides, then the lengths\<close>
  "key_lt [] [] = Inr False"
| "key_lt [] (y # ys) = Inr True"
| "key_lt (x # xs) [] = Inr False"
| "key_lt (x # xs) (y # ys) = (if x = y then key_lt xs ys else token_lt x y)"

fun insert_by_key :: "token list \<times> 'a \<Rightarrow> (token list \<times> 'a) list \<Rightarrow> (token list \<times> 'a) list" where
  "insert_by_key x [] = [x]"
| "insert_by_key x (y # ys) =
     (if key_lt (fst x) (fst y) = Inr True then x # y # ys else y # insert_by_key x ys)"

definition sorted_by_key :: "('a \<Rightarrow> py_error + token list) \<Rightarrow> 'a list \<Rightarrow> py_error + 'a list" where
  \<comment> \<open>\<open>sorted(xs, key=f)\<close>: every key is computed first, then a stable sort by \<open><\<close>\<close>
  "sorted_by_key f xs =
     (case collect (map f xs) of
        Inl e \<Rightarrow> Inl e
      | Inr ks \<Rightarrow> Inr (map snd (foldl (\<lambda>acc x. insert_by_key x acc) [] (zip ks xs))))"

section \<open>Content normalisation: \<open>_create_xhtml_content\<close>\<close>

text \<open>
  The document BeautifulSoup builds: a forest of elements (name, attributes, children)
  and strings. Parsing and \<open>str(soup)\<close> are the library's.
\<close>

datatype node = Tag string "(string \<times> string) list" "node list" | Text string

fun find_tag :: "string \<Rightarrow> node list \<Rightarrow> node option" where
  \<comment> \<open>\<open>soup.find(name)\<close>: the first element of that name in document order\<close>
  "find_tag n [] = None"
| "find_tag n (Text t # ns) = find_tag n ns"
| "find_tag n (Tag m as cs # ns) =
     (if m = n then Some (Tag m as cs)
      else (case find_tag n cs of Some x \<Rightarrow> Some x | None \<Rightarrow> find_tag n ns))"

fun decompose_first :: "string \<Rightarrow> node list \<Rightarrow> node list" where
  \<comment> \<open>the document after \<open>soup.find(name).decompose()\<close>: the element \<open>find\<close> reaches is
      taken out with all it contains; the document is unchanged when there is none\<close>
  "decompose_first n [] = []"
| "decompose_first n (Text t # ns) = Text t # decompose_first n ns"
| "decompose_first n (Tag m as cs # ns) =
     (if m = n then ns
      else (case find_tag n cs of
              Some x \<Rightarrow> Tag m as (decompose_first n cs) # ns
            | None \<Rightarrow> Tag m as cs # decompose_first n ns))"

definition clean_soup :: "node list \<Rightarrow> node list" where
  \<comment> \<open>lines 290-292\<close>
  "clean_soup soup =
     (case find_tag ''h1'' soup of None \<Rightarrow> soup | Some first_h1 \<Rightarrow> decompose_first ''h1'' soup)"

section \<open>The book and the converter\<close>

type_synonym bytes = string

record epub_html =
  ch_id :: "string option"
  ch_file_name :: string
  ch_title :: string
  ch_lang :: string
  ch_content :: string
  ch_links :: "string list"

record epub_item =
  item_uid :: string
  item_file_name :: string
  item_media_type :: string
  item_content :: bytes

text \<open>
  A chapter is one object shared by the converter's chapter list, its spine and the book's
  items, and \<open>add_custom_css\<close> mutates it: the chapter objects live in a store (a list,
  the address is the position) and the three lists hold addresses.
\<close>

datatype item = HtmlItem nat | ImageItem epub_item | PlainItem epub_item | NcxItem | NavItem

datatype spine_entry = SNav | SChapter nat

datatype link = Link string string "string option"

datatype toc_node = TocNode link "toc_node list"

record book =
  book_identifier :: string
  book_title :: string
  book_language :: string
  book_authors :: "string list"
  items :: "item list"
  toc :: "toc_node list"
  book_spine :: "spine_entry list"
  cover :: "(string \<times> bytes) option"

record 'm converter =
  book :: book
  chapters :: "nat list"
  spine :: "spine_entry list"
  store :: "epub_html list"
  md :: 'm

text \<open>
  What the program consumes and does not implement: the Markdown converter (with its own
  state \<open>'m\<close>), the HTML parser, the package library and the runtime's \<open>str.title\<close>.
\<close>

record 'm runtime =
  md_convert :: "'m \<Rightarrow> string \<Rightarrow> 'm \<times> (py_error + string)"
  md_reset :: "'m \<Rightarrow> 'm"
  yaml_safe_load :: yaml_loader
  str_title :: "string \<Rightarrow> string"
  soup_parse :: "string \<Rightarrow> py_error + node list"
  soup_str :: "node list \<Rightarrow> string"
  new_html_id :: "book \<Rightarrow> string"
  default_css :: string
  write_epub :: "string \<Rightarrow> book \<Rightarrow> epub_html list \<Rightarrow> py_error + unit"

text \<open>
  The file system: the text and the bytes of a file (or the exception of \<open>open\<close>), whether
  a path exists, the names directly in a directory and the paths below it, relative to it
  (what the wildcard \<open>**\<close> visits).
\<close>

record filesystem =
  read_text :: "path \<Rightarrow> py_error + string"
  read_bytes :: "path \<Rightarrow> py_error + bytes"
  path_exists :: "path \<Rightarrow> bool"
  children :: "path \<Rightarrow> string list"
  tree :: "path \<Rightarrow> path list"

definition init :: "string \<Rightarrow> 'm \<Rightarrow> string \<Rightarrow> string \<Rightarrow> string \<Rightarrow> 'm converter" where
  \<comment> \<open>\<open>__init__\<close>; \<open>uid\<close> is the value of \<open>uuid.uuid4()\<close>, \<open>m\<close> the new Markdown parser\<close>
  "init uid m title author language =
     \<lparr> book = \<lparr> book_identifier = uid, book_title = title, book_language = language,
                 book_authors = [author], items = [], toc = [], book_spine = [],
                 cover = None \<rparr>,
       chapters = [], spine = [SNav], store = [], md = m \<rparr>"

definition create_xhtml_content :: "'m runtime \<Rightarrow> string \<Rightarrow> string \<Rightarrow> py_error + string" where
  "create_xhtml_content rt html_content title =
     (case soup_parse rt html_content of
        Inl e \<Rightarrow> Inl e
      | Inr soup \<Rightarrow> Inr (soup_str rt (clean_soup soup)))"

function str_nat :: "nat \<Rightarrow> string" where
  \<comment> \<open>the decimal digits of a number, as the f-string formats it\<close>
  "str_nat n = (if n < 10 then [char_of (48 + n)] else str_nat (n div 10) @ [char_of (48 + n mod 10)])"
  by pat_completeness auto
termination
  by (relation "measure id") auto

declare str_nat.simps [simp del]

definition chapter_id :: "nat \<Rightarrow> string" where
  \<comment> \<open>line 75, from the number of chapters so far\<close>
  "chapter_id len_chapters = ''chapter_'' @ str_nat (len_chapters + 1)"

definition book_add_html :: "'m runtime \<Rightarrow> 'm converter \<Rightarrow> epub_html \<Rightarrow> 'm converter \<times> nat" where
  \<comment> \<open>\<open>book.add_item(chapter)\<close>: the library gives an item without an id one of its own;
      the object enters the store and the book's items hold its address\<close>
  "book_add_html rt s chapter =
     (let a = length (store s);
          ch = (if ch_id chapter = None
                then chapter\<lparr>ch_id := Some (new_html_id rt (book s))\<rparr> else chapter)
      in (s\<lparr> store := store s @ [ch],
             book := (book s)\<lparr>items := items (book s) @ [HtmlItem a]\<rparr> \<rparr>, a))"

definition resolve_title ::
  "'m runtime \<Rightarrow> string option \<Rightarrow> string \<Rightarrow> path \<Rightarrow> py_error + string" where
  \<comment> \<open>lines 68-69: \<open>not chapter_title\<close> holds of \<open>None\<close> and of the empty string\<close>
  "resolve_title rt chapter_title md_content md_path =
     (case chapter_title of
        None \<Rightarrow> extract_title (yaml_safe_load rt) (str_title rt) md_content md_path
      | Some t \<Rightarrow>
          if t = [] then extract_title (yaml_safe_load rt) (str_title rt) md_content md_path
          else Inr t)"

definition add_markdown_file ::
  "'m runtime \<Rightarrow> filesystem \<Rightarrow> 'm converter \<Rightarrow> path \<Rightarrow> string option \<Rightarrow> 'm converter \<times> bool" where
  \<comment> \<open>every exception of the \<open>try\<close> block ends in \<open>return False\<close>\<close>
  "add_markdown_file rt fs s md_path chapter_title =
     (case read_text fs md_path of
        Inl e \<Rightarrow> (s, False)
      | Inr md_content \<Rightarrow>
          (let (m1, r) = md_convert rt (md s) md_content; s1 = s\<lparr>md := m1\<rparr> in
           case r of
             Inl e \<Rightarrow> (s1, False)
           | Inr html_content \<Rightarrow>
               (case resolve_title rt chapter_title md_content md_path of
                  Inl e \<Rightarrow> (s1, False)
                | Inr title \<Rightarrow>
                    (let cid = chapter_id (length (chapters s1));
                         chapter = \<lparr> ch_id = None, ch_file_name = cid @ ''.xhtml'',
                                     ch_title = title, ch_lang = book_language (book s1),
                                     ch_content = [], ch_links = [] \<rparr>
                     in case create_xhtml_content rt html_content title of
                          Inl e \<Rightarrow> (s1, False)
                        | Inr content \<Rightarrow>
                            (let (s2, a) = book_add_html rt s1 (chapter\<lparr>ch_content := content\<rparr>);
                                 s3 = s2\<lparr>chapters := chapters s2 @ [a]\<rparr>;
                                 s4 = s3\<lparr>spine := spine s3 @ [SChapter a]\<rparr>
                             in (s4\<lparr>md := md_reset rt (md s4)\<rparr>, True))))))"

section \<open>Images\<close>

definition image_media_type :: "path \<Rightarrow> string" where
  "image_media_type image_path =
     (let ext = lower (path_suffix image_path) in
      if ext = ''.jpg'' \<or> ext = ''.jpeg'' then ''image/jpeg''
      else if ext = ''.png'' then ''image/png''
      else if ext = ''.gif'' then ''image/gif''
      else ''image/png'')"

definition book_add_item :: "'m converter \<Rightarrow> item \<Rightarrow> 'm converter" where
  \<comment> \<open>\<open>book.add_item\<close> of an item that has its id\<close>
  "book_add_item s it = s\<lparr>book := (book s)\<lparr>items := items (book s) @ [it]\<rparr>\<rparr>"

definition add_image_file :: "filesystem \<Rightarrow> 'm converter \<Rightarrow> path \<Rightarrow> string \<Rightarrow> 'm converter \<times> bool" where
  "add_image_file fs s img_path parent_path =
     (case read_bytes fs img_path of
        Inl e \<Rightarrow> (s, False)
      | Inr image_content \<Rightarrow>
          (let prefix_len = length parent_path + 1;
               img = \<lparr> item_uid = path_name img_path,
                       item_file_name = drop prefix_len (path_str img_path),
                       item_media_type = image_media_type img_path,
                       item_content = image_content \<rparr>
           in (book_add_item s (ImageItem img), True)))"

definition ends_with :: "string \<Rightarrow> string \<Rightarrow> bool" where
  \<comment> \<open>a name matches the pattern \<open>*suffix\<close>; the match is case-sensitive\<close>
  "ends_with suffix name \<longleftrightarrow>
     length suffix \<le> length name \<and> drop (length name - length suffix) name = suffix"

definition glob_rec :: "filesystem \<Rightarrow> path \<Rightarrow> string \<Rightarrow> path list" where
  \<comment> \<open>\<open>directory.glob("**/*" + suffix)\<close>\<close>
  "glob_rec fs directory suffix =
     map (\<lambda>rel. directory @ rel)
       (filter (\<lambda>rel. rel \<noteq> [] \<and> ends_with suffix (last rel)) (tree fs directory))"

definition glob_flat :: "filesystem \<Rightarrow> path \<Rightarrow> string \<Rightarrow> path list" where
  \<comment> \<open>\<open>directory.glob("*" + suffix)\<close>\<close>
  "glob_flat fs directory suffix =
     map (\<lambda>n. directory @ [n]) (filter (ends_with suffix) (children fs directory))"

definition image_patterns :: "string list" where
  \<comment> \<open>the suffixes of the sixteen patterns \<open>**/*.jpg\<close>, ...\<close>
  "image_patterns = [''.jpg'', ''.jpeg'', ''.png'', ''.gif'', ''.bmp'', ''.tiff'', ''.webp'',
     ''.svg'', ''.JPG'', ''.JPEG'', ''.PNG'', ''.GIF'', ''.BMP'', ''.TIFF'', ''.WEBP'', ''.SVG'']"

definition find_images_glob :: "filesystem \<Rightarrow> path \<Rightarrow> path list" where
  \<comment> \<open>\<open>sorted(set(image_files))\<close>\<close>
  "find_images_glob fs directory =
     sort (remdups (concat (map (glob_rec fs directory) image_patterns)))"

section \<open>A directory of Markdown files\<close>

fun add_markdown_files ::
  "'m runtime \<Rightarrow> filesystem \<Rightarrow> 'm converter \<Rightarrow> path list \<Rightarrow> 'm converter \<times> nat" where
  \<comment> \<open>the loop of lines 170-173, with its \<open>success_count\<close>\<close>
  "add_markdown_files rt fs s [] = (s, 0)"
| "add_markdown_files rt fs s (md_file # rest) =
     (let (s1, ok) = add_markdown_file rt fs s md_file None;
          (s2, n) = add_markdown_files rt fs s1 rest
      in (s2, (if ok then 1 else 0) + n))"

fun add_image_files :: "filesystem \<Rightarrow> 'm converter \<Rightarrow> path list \<Rightarrow> string \<Rightarrow> 'm converter" where
  \<comment> \<open>the loop of lines 180-181\<close>
  "add_image_files fs s [] parent_path = s"
| "add_image_files fs s (img_file # rest) parent_path =
     add_image_files fs (fst (add_image_file fs s img_file parent_path)) rest parent_path"

definition add_markdown_directory ::
  "'m runtime \<Rightarrow> filesystem \<Rightarrow> 'm converter \<Rightarrow> string \<Rightarrow> py_error + ('m converter \<times> bool)" where
  \<comment> \<open>with the default pattern \<open>*.md\<close>, as its one caller leaves it. The order in which a
      set is iterated is not specified: the model takes the order of the listing. An
      exception of the sort key is not caught here.\<close>
  "add_markdown_directory rt fs s directory_path =
     (let directory = path_of_str directory_path in
      if \<not> path_exists fs directory then Inr (s, False)
      else
        (let md_files = glob_flat fs directory ''.md'' @ glob_flat fs directory ''.markdown'' in
         case sorted_by_key (\<lambda>x. natural_sort_key (path_name x)) (remdups md_files) of
           Inl e \<Rightarrow> Inl e
         | Inr md_files \<Rightarrow>
             if md_files = [] then Inr (s, False)
             else
               (let (s1, success_count) = add_markdown_files rt fs s md_files;
                    img_files = find_images_glob fs directory;
                    s2 = add_image_files fs s1 img_files directory_path
                in Inr (s2, 0 < success_count))))"

section \<open>Stylesheet, cover and emission\<close>

definition chapter_add_item :: "epub_html \<Rightarrow> epub_item \<Rightarrow> epub_html" where
  \<comment> \<open>\<open>chapter.add_item(css_item)\<close>: the chapter links the stylesheet\<close>
  "chapter_add_item ch it = ch\<lparr>ch_links := ch_links ch @ [item_file_name it]\<rparr>"

definition add_custom_css :: "'m runtime \<Rightarrow> 'm converter \<Rightarrow> string option \<Rightarrow> 'm converter \<times> bool" where
  "add_custom_css rt s css_content =
     (let css = (case css_content of None \<Rightarrow> default_css rt | Some c \<Rightarrow> c);
          css_item = \<lparr> item_uid = ''style_default'', item_file_name = ''style/default.css'',
                       item_media_type = ''text/css'', item_content = css \<rparr>;
          s1 = book_add_item s (PlainItem css_item)
      in (s1\<lparr>store := foldl (\<lambda>st a. st[a := chapter_add_item (st ! a) css_item])
                          (store s1) (chapters s1)\<rparr>, True))"

definition add_cover_image :: "filesystem \<Rightarrow> 'm converter \<Rightarrow> string \<Rightarrow> 'm converter \<times> bool" where
  \<comment> \<open>line 240 reads the name \<open>ext\<close>, which the function never assigns: the read is that of
      a global, and its NameError is caught by the \<open>except\<close> of line 244\<close>
  "add_cover_image fs s image_path_str =
     (let image_path = path_of_str image_path_str in
      if \<not> path_exists fs image_path then (s, False)
      else
        (case read_bytes fs image_path of
           Inl e \<Rightarrow> (s, False)
         | Inr cover_content \<Rightarrow>
             (let media_type = image_media_type image_path in
              case lookup_global ''ext'' of
                Inl e \<Rightarrow> (s, False)
              | Inr ext \<Rightarrow>
                  (s\<lparr>book := (book s)\<lparr>cover := Some (''cover'' @ ext, cover_content)\<rparr>\<rparr>, True))))"

definition generate_epub :: "'m runtime \<Rightarrow> 'm converter \<Rightarrow> string \<Rightarrow> 'm converter \<times> bool" where
  \<comment> \<open>\<open>write_epub\<close> stands for creating the output directory and writing the container\<close>
  "generate_epub rt s output_path =
     (if chapters s = [] then (s, False)
      else
        (let s1 = fst (add_custom_css rt s None);
             s2 = s1\<lparr>book := (book s1)\<lparr>toc :=
                     map (\<lambda>a. let chapter = store s1 ! a in
                            TocNode (Link (ch_file_name chapter) (ch_title chapter) (ch_id chapter)) [])
                         (chapters s1)\<rparr>\<rparr>;
             s3 = book_add_item (book_add_item s2 NcxItem) NavItem;
             s4 = s3\<lparr>book := (book s3)\<lparr>book_spine := spine s3\<rparr>\<rparr>
         in case write_epub rt (path_str (path_of_str output_path)) (book s4) (store s4) of
              Inl e \<Rightarrow> (s4, False)
            | Inr u \<Rightarrow> (s4, True)))"

section \<open>The command line: \<open>main\<close>\<close>

definition source_directory :: "string list \<Rightarrow> py_error + string" where
  \<comment> \<open>lines 457-460; \<open>sys.argv[1]\<close> raises IndexError on a list of one element\<close>
  "source_directory argv =
     (if length argv < 1 then Inr ''./''
      else if 1 < length argv then Inr (argv ! 1)
      else Inl IndexError)"

definition output_file_of :: "string \<Rightarrow> string" where
  \<comment> \<open>lines 464-466\<close>
  "output_file_of dir =
     (let markdown_dir = path_str (path_of_str dir);
          title = last (split_on CHR ''/'' markdown_dir)
      in ''./output/'' @ title @ ''.epub'')"

definition main ::
  "'m runtime \<Rightarrow> filesystem \<Rightarrow> string \<Rightarrow> 'm \<Rightarrow> string list \<Rightarrow> py_error + ('m converter \<times> bool)" where
  \<comment> \<open>the result is the converter at the end and whether the conversion succeeded; an
      exception that \<open>main\<close> does not catch ends the program\<close>
  "main rt fs uid m argv =
     (case source_directory argv of
        Inl e \<Rightarrow> Inl e
      | Inr dir \<Rightarrow>
          (let markdown_dir = path_str (path_of_str dir);
               title = last (split_on CHR ''/'' markdown_dir);
               output_file = output_file_of dir;
               cover_path = markdown_dir @ ''/cover.png'';
               cover_image = (if path_exists fs (path_of_str cover_path) then Some cover_path
                              else None);
               converter = init uid m title ''Unknown'' ''en''
           in case add_markdown_directory rt fs converter markdown_dir of
                Inl e \<Rightarrow> Inl e
              | Inr (c1, ok) \<Rightarrow>
                  if \<not> ok then Inr (c1, False)
                  else
                    (let c2 = (case cover_image of
                                 None \<Rightarrow> c1
                               | Some ci \<Rightarrow> fst (add_cover_image fs c1 ci))
                     in Inr (generate_epub rt c2 output_file))))"

section \<open>Notions the properties are stated with\<close>

text \<open>
  The markup of a document: its start tags, strings and end tags in document order.
  Removing an element removes the run from its start tag to its end tag.
\<close>

datatype markup_token = Open string "(string \<times> string) list" | Chars string | Close string

fun markup :: "node list \<Rightarrow> markup_token list" where
  "markup [] = []"
| "markup (Text t # ns) = Chars t # markup ns"
| "markup (Tag m as cs # ns) = Open m as # markup cs @ Close m # markup ns"

fun is_open :: "string \<Rightarrow> markup_token \<Rightarrow> bool" where
  "is_open n (Open m as) = (m = n)"
| "is_open n (Chars t) = False"
| "is_open n (Close m) = False"

definition count_open :: "string \<Rightarrow> node list \<Rightarrow> nat" where
  \<comment> \<open>how many elements of a name a document has\<close>
  "count_open n soup = length (filter (is_open n) (markup soup))"

text \<open>The converters a program run can reach: by the constructor and the public methods.\<close>

inductive reachable :: "'m runtime \<Rightarrow> filesystem \<Rightarrow> 'm converter \<Rightarrow> bool" for rt fs where
  reach_init: "reachable rt fs (init uid m title author language)"
| reach_file: "reachable rt fs s \<Longrightarrow> reachable rt fs (fst (add_markdown_file rt fs s md_path t))"
| reach_image: "reachable rt fs s \<Longrightarrow> reachable rt fs (fst (add_image_file fs s img_path parent))"
| reach_directory:
    "reachable rt fs s \<Longrightarrow> add_markdown_directory rt fs s d = Inr (s', ok) \<Longrightarrow> reachable rt fs s'"
| reach_css: "reachable rt fs s \<Longrightarrow> reachable rt fs (fst (add_custom_css rt s css))"
| reach_cover: "reachable rt fs s \<Longrightarrow> reachable rt fs (fst (add_cover_image fs s image_path))"
| reach_generate: "reachable rt fs s \<Longrightarrow> reachable rt fs (fst (generate_epub rt s out))"

definition file_names :: "'m converter \<Rightarrow> string list" where
  \<comment> \<open>the output file names of the chapters, in order\<close>
  "file_names s = map (\<lambda>a. ch_file_name (store s ! a)) (chapters s)"

definition converter_inv :: "'m converter \<Rightarrow> bool" where
  \<comment> \<open>the spine is the navigation entry and then the chapters; every chapter is in the
      store; the k-th chapter's file is named after the k-th identifier\<close>
  "converter_inv s \<longleftrightarrow>
     spine s = SNav # map SChapter (chapters s)
     \<and> list_all (\<lambda>a. a < length (store s)) (chapters s)
     \<and> file_names s = map (\<lambda>k. chapter_id k @ ''.xhtml'') [0..<length (chapters s)]"

definition nat_of_digits :: "string \<Rightarrow> nat" where
  "nat_of_digits ds = foldl (\<lambda>a c. 10 * a + (ord c - 48)) 0 ds"

text \<open>
  A small world for concrete instances: a directory \<open>book\<close> with three Markdown files,
  of which \<open>ch2.md\<close> cannot be read, and three images; a converter standing for the
  Markdown library and a parser that takes its input for one string.
\<close>

definition sample_fs :: filesystem where
  "sample_fs =
     \<lparr> read_text = (\<lambda>p. if p = [''book'', ''ch1.md''] then Inr ''# One\<newline>text''
                          else if p = [''book'', ''ch10.md''] then Inr ''Ten\<newline>===''
                          else Inl OSError),
       read_bytes = (\<lambda>p. if p = [''book'', ''sub'', ''b.jpg''] then Inr ''JFIF''
                           else if p = [''book'', ''a.PNG''] then Inr ''PNG''
                           else if p = [''book'', ''a.Png''] then Inr ''PNG''
                           else Inl OSError),
       path_exists = (\<lambda>p. p \<in> set [[''book''], [''book'', ''ch1.md''], [''book'', ''ch2.md''],
                            [''book'', ''ch10.md''], [''book'', ''sub''],
                            [''book'', ''sub'', ''b.jpg''], [''book'', ''a.PNG''],
                            [''book'', ''a.Png'']]),
       children = (\<lambda>d. if d = [''book''] then [''ch10.md'', ''ch2.md'', ''ch1.md'', ''sub'',
                            ''a.PNG'', ''a.Png''] else []),
       tree = (\<lambda>d. if d = [''book'']
                    then [[''ch10.md''], [''ch2.md''], [''ch1.md''], [''sub''], [''sub'', ''b.jpg''],
                          [''a.PNG''], [''a.Png'']]
                    else []) \<rparr>"

definition sample_runtime :: "unit runtime" where
  "sample_runtime =
     \<lparr> md_convert = (\<lambda>m text. (m, Inr (''<p>'' @ text @ ''</p>''))),
       md_reset = (\<lambda>m. m),
       yaml_safe_load = (\<lambda>text. Inl LibError),
       str_title = (\<lambda>text. text),
       soup_parse = (\<lambda>html. Inr [Text html]),
       soup_str = (\<lambda>soup. concat (map (\<lambda>n. case n of Text t \<Rightarrow> t | Tag m as cs \<Rightarrow> []) soup)),
       new_html_id = (\<lambda>b. ''id'' @ str_nat (length (items b))),
       default_css = ''body { margin: 1em; }'',
       write_epub = (\<lambda>out b st. Inr ()) \<rparr>"

definition sample_converter :: "unit converter" where
  "sample_converter = init ''0000'' () ''book'' ''Unknown'' ''en''"


definition sample_loaded :: "unit converter" where
  \<comment> \<open>the converter after the directory \<open>book\<close>: \<open>ch2.md\<close> failed and left no gap\<close>
  "sample_loaded =
     \<lparr> book = \<lparr> book_identifier = ''0000'', book_title = ''book'', book_language = ''en'',
                 book_authors = [''Unknown''],
                 items = [HtmlItem 0, HtmlItem 1,
                          ImageItem \<lparr> item_uid = ''a.PNG'', item_file_name = ''a.PNG'',
                                      item_media_type = ''image/png'', item_content = ''PNG'' \<rparr>,
                          ImageItem \<lparr> item_uid = ''b.jpg'', item_file_name = ''sub/b.jpg'',
                                      item_media_type = ''image/jpeg'', item_content = ''JFIF'' \<rparr>],
                 toc = [], book_spine = [], cover = None \<rparr>,
       chapters = [0, 1], spine = [SNav, SChapter 0, SChapter 1],
       store = [\<lparr> ch_id = Some ''id0'', ch_file_name = ''chapter_1.xhtml'', ch_title = ''One'',
                  ch_lang = ''en'', ch_content = ''<p># One\<newline>text</p>'', ch_links = [] \<rparr>,
                \<lparr> ch_id = Some ''id1'', ch_file_name = ''chapter_2.xhtml'', ch_title = ''Ten'',
                  ch_lang = ''en'', ch_content = ''<p>Ten\<newline>===</p>'', ch_links = [] \<rparr>],
       md = () \<rparr>"

fun render :: "node list \<Rightarrow> string" where
  \<comment> \<open>a plain serialisation, for the sample runtime\<close>
  "render [] = []"
| "render (Text t # ns) = t @ render ns"
| "render (Tag m as cs # ns) = ''<'' @ m @ ''>'' @ render cs @ ''</'' @ m @ ''>'' @ render ns"

definition two_h1 :: "node list" where
  \<comment> \<open>the document of \<open><h1>Title</h1><p>Body</p><h1>Second</h1>\<close>\<close>
  "two_h1 = [Tag ''h1'' [] [Text ''Title''], Tag ''p'' [] [Text ''Body''],
             Tag ''h1'' [] [Text ''Second'']]"

definition html_runtime :: "unit runtime" where
  \<comment> \<open>the sample runtime with a parser that knows the document \<open>two_h1\<close>\<close>
  "html_runtime =
     sample_runtime\<lparr> soup_parse := (\<lambda>html. if html = ''<h1>Title</h1><p>Body</p><h1>Second</h1>''
                                               then Inr two_h1 else Inr [Text html]),
                       soup_str := render \<rparr>"

definition nested_h1 :: "node list" where
  \<comment> \<open>the document of \<open><h1>A<h1>B</h1></h1><p>C</p>\<close>\<close>
  "nested_h1 = [Tag ''h1'' [] [Text ''A'', Tag ''h1'' [] [Text ''B'']], Tag ''p'' [] [Text ''C'']]"




text \<open>
  The current directory holding \<open>ch1.md\<close>, \<open>a.png\<close> and \<open>sub/b.jpg\<close>; the images a
  book holds.
\<close>

definition dot_fs :: filesystem where
  "dot_fs =
     \<lparr> read_text = (\<lambda>p. if p = [''ch1.md''] then Inr ''# One\<newline>text'' else Inl OSError),
       read_bytes = (\<lambda>p. if p = [''a.png''] then Inr ''PNG''
                           else if p = [''sub'', ''b.jpg''] then Inr ''JFIF''
                           else Inl OSError),
       path_exists = (\<lambda>p. p \<in> set [[], [''ch1.md''], [''a.png''], [''sub''], [''sub'', ''b.jpg'']]),
       children = (\<lambda>d. if d = [] then [''ch1.md'', ''a.png'', ''sub''] else []),
       tree = (\<lambda>d. if d = [] then [[''ch1.md''], [''a.png''], [''sub''], [''sub'', ''b.jpg'']]
                    else []) \<rparr>"

fun image_items :: "item list \<Rightarrow> epub_item list" where
  "image_items [] = []"
| "image_items (ImageItem i # its) = i # image_items its"
| "image_items (HtmlItem a # its) = image_items its"
| "image_items (PlainItem i # its) = image_items its"
| "image_items (NcxItem # its) = image_items its"
| "image_items (NavItem # its) = image_items its"

section \<open>Title resolution\<close>

lemma front_matter_title_None: "front_matter_title safe_load lines = None"
  by (simp add: front_matter_title_def lookup_global_def module_globals_def Let_def
      split: option.splits)

text \<open>
  C2. The claim: the document \<open>---\ntitle: Foo\n---\n# Bar\<close> resolves to \<open>Foo\<close>. The
  code resolves it to \<open>Bar\<close>, whatever the YAML parser would return: the module never
  imports \<open>yaml\<close>, the NameError is swallowed, and the heading scan decides.
\<close>

theorem extract_title_front_matter_ignored:
  "extract_title safe_load title_case ''---\<newline>title: Foo\<newline>---\<newline># Bar'' md_path = Inr ''Bar''"
  by (simp add: extract_title_def front_matter_title_def lookup_global_def module_globals_def
      strip_def isspace_def ord_def)

text \<open>
  C4. The claim: a setext heading is recognised and resolution never raises. On the
  document \<open> Title\n=====\<close>, whose heading line starts with a space, the stripped line
  is not an element of \<open>lines\<close>, and \<open>lines.index(line)\<close> raises ValueError.
\<close>

theorem extract_title_setext_raises:
  "extract_title safe_load title_case '' Title\<newline>====='' md_path = Inl ValueError"
  by (simp add: extract_title_def front_matter_title_def strip_def isspace_def ord_def)

section \<open>The command line\<close>

text \<open>
  C3. The claim: without a positional argument the source directory defaults to the
  current directory and the run does not crash. With \<open>sys.argv\<close> holding the script name
  alone, the test \<open>len(sys.argv) < 1\<close> fails and \<open>sys.argv[1]\<close> raises IndexError, which
  nothing catches.
\<close>

theorem main_without_argument_raises:
  "main rt fs uid m [''create-ebook.py''] = Inl IndexError"
  by (simp add: main_def source_directory_def)

section \<open>Cover attachment\<close>

text \<open>
  C1. The claim: for an existing, readable image file, \<open>add_cover_image\<close> sets the cover
  and returns true. The code never does: whatever the file system holds, the call returns
  false and leaves the converter as it was, because line 240 reads the unbound name
  \<open>ext\<close>.
\<close>

theorem add_cover_image_returns_false:
  "add_cover_image fs s image_path = (s, False)"
  by (simp add: add_cover_image_def lookup_global_def module_globals_def Let_def
      split: sum.splits)

section \<open>Natural ordering\<close>



lemma zeros_value: "foldl (\<lambda>a c. 10 * a + (ord c - 48)) 0 (replicate i CHR ''0'') = (0::nat)"
  by (induction i) (simp_all add: ord_def)

lemma nat_of_digits_zeros: "nat_of_digits (replicate i CHR ''0'' @ ds) = nat_of_digits ds"
  by (simp add: nat_of_digits_def zeros_value)













section \<open>Content normalisation\<close>

lemma find_tag_None:
  "find_tag n soup = None \<Longrightarrow>
     decompose_first n soup = soup \<and> filter (is_open n) (markup soup) = []"
  by (induction n soup rule: find_tag.induct) (auto split: option.splits if_splits)

lemma find_tag_Some:
  "find_tag n soup = Some h \<Longrightarrow>
     \<exists>as cs pre post. h = Tag n as cs \<and> markup soup = pre @ markup [h] @ post
        \<and> filter (is_open n) pre = [] \<and> markup (decompose_first n soup) = pre @ post"
proof (induction n soup arbitrary: h rule: find_tag.induct)
  case (1 n)
  then show ?case by simp
next
  case (2 n t ns)
  then obtain as cs pre post where
    "h = Tag n as cs" "markup ns = pre @ markup [h] @ post"
    "filter (is_open n) pre = []" "markup (decompose_first n ns) = pre @ post"
    by fastforce
  then have "markup (Text t # ns) = (Chars t # pre) @ markup [h] @ post
      \<and> filter (is_open n) (Chars t # pre) = []
      \<and> markup (decompose_first n (Text t # ns)) = (Chars t # pre) @ post"
    by simp
  with \<open>h = Tag n as cs\<close> show ?case by blast
next
  case (3 n m as cs ns)
  show ?case
  proof (cases "m = n")
    case True
    with 3(3) have h: "h = Tag n as cs" by simp
    have "markup (Tag m as cs # ns) = [] @ markup [h] @ markup ns
       \<and> filter (is_open n) [] = []
       \<and> markup (decompose_first n (Tag m as cs # ns)) = [] @ markup ns"
      using True h by simp
    with h show ?thesis by blast
  next
    case False
    show ?thesis
    proof (cases "find_tag n cs")
      case (Some x)
      with False 3(3) have "x = h" by simp
      with 3(1) [OF False] Some obtain as' cs' pre post where
        h: "h = Tag n as' cs'" and mk: "markup cs = pre @ markup [h] @ post"
        and np: "filter (is_open n) pre = []"
        and dc: "markup (decompose_first n cs) = pre @ post"
        by fastforce
      have "markup (Tag m as cs # ns) = (Open m as # pre) @ markup [h] @ (post @ Close m # markup ns)
         \<and> filter (is_open n) (Open m as # pre) = []
         \<and> markup (decompose_first n (Tag m as cs # ns)) = (Open m as # pre) @ (post @ Close m # markup ns)"
        using False Some mk np dc by simp
      with h show ?thesis by blast
    next
      case None
      with False 3(3) have f: "find_tag n ns = Some h" by simp
      from 3(2) [OF False None f] obtain as' cs' pre post where
        h: "h = Tag n as' cs'" and mk: "markup ns = pre @ markup [h] @ post"
        and np: "filter (is_open n) pre = []"
        and dc: "markup (decompose_first n ns) = pre @ post"
        by fastforce
      from find_tag_None [OF None] have nc: "filter (is_open n) (markup cs) = []" by simp
      have "markup (Tag m as cs # ns) = (Open m as # markup cs @ Close m # pre) @ markup [h] @ post
         \<and> filter (is_open n) (Open m as # markup cs @ Close m # pre) = []
         \<and> markup (decompose_first n (Tag m as cs # ns)) = (Open m as # markup cs @ Close m # pre) @ post"
        using False None mk np dc nc by simp
      with h show ?thesis by blast
    qed
  qed
qed

lemma find_tag_None_iff: "find_tag n soup = None \<longleftrightarrow> count_open n soup = 0"
proof
  assume "find_tag n soup = None"
  then show "count_open n soup = 0" by (simp add: count_open_def find_tag_None)
next
  assume c: "count_open n soup = 0"
  show "find_tag n soup = None"
  proof (cases "find_tag n soup")
    case None then show ?thesis .
  next
    case (Some h)
    from find_tag_Some [OF Some] c show ?thesis
      by (auto simp: count_open_def)
  qed
qed

text \<open>
  C6, as amended. The HTML is parsed by the library; \<open>_create_xhtml_content\<close> returns the
  library's serialisation of the document from which the first \<open>h1\<close> element in document
  order is removed with all it contains. In terms of markup: the document is
  \<open>pre\<close>, the element, \<open>post\<close>, with no \<open>h1\<close> start tag in \<open>pre\<close>, and the result is
  \<open>pre\<close>, \<open>post\<close>: every \<open>h1\<close> outside the removed element stays. A document without an
  \<open>h1\<close> is left as it is.
\<close>

theorem clean_soup_removes_first_h1:
  assumes "soup_parse rt html_content = Inr soup"
  shows "create_xhtml_content rt html_content title = Inr (soup_str rt (clean_soup soup))
       \<and> (if count_open ''h1'' soup = 0 then clean_soup soup = soup
          else (\<exists>as cs pre post.
                  markup soup = pre @ markup [Tag ''h1'' as cs] @ post
                  \<and> filter (is_open ''h1'') pre = []
                  \<and> markup (clean_soup soup) = pre @ post
                  \<and> count_open ''h1'' (clean_soup soup) + count_open ''h1'' [Tag ''h1'' as cs]
                      = count_open ''h1'' soup))"
proof -
  have c: "create_xhtml_content rt html_content title = Inr (soup_str rt (clean_soup soup))"
    using assms by (simp add: create_xhtml_content_def)
  show ?thesis
  proof (cases "find_tag ''h1'' soup")
    case None
    then have "count_open ''h1'' soup = 0" "clean_soup soup = soup"
      using find_tag_None_iff [of "''h1''" soup] by (simp_all add: clean_soup_def)
    with c show ?thesis by simp
  next
    case (Some h)
    then have nz: "count_open ''h1'' soup \<noteq> 0"
      using find_tag_None_iff [of "''h1''" soup] by simp
    from find_tag_Some [OF Some] obtain as cs pre post where
      h: "h = Tag ''h1'' as cs" and mk: "markup soup = pre @ markup [h] @ post"
      and np: "filter (is_open ''h1'') pre = []"
      and dc: "markup (decompose_first ''h1'' soup) = pre @ post"
      by blast
    have cl: "clean_soup soup = decompose_first ''h1'' soup"
      using Some by (simp add: clean_soup_def)
    have "count_open ''h1'' (clean_soup soup) + count_open ''h1'' [h] = count_open ''h1'' soup"
      unfolding count_open_def cl dc mk by simp
    with h mk np dc cl nz c show ?thesis by auto
  qed
qed

lemma html_parse: "soup_parse html_runtime ''<h1>Title</h1><p>Body</p><h1>Second</h1>'' = Inr two_h1"
  by (simp add: html_runtime_def)

theorem clean_soup_removes_first_h1_witness:
  "soup_parse html_runtime ''<h1>Title</h1><p>Body</p><h1>Second</h1>'' = Inr two_h1
   \<and> create_xhtml_content html_runtime ''<h1>Title</h1><p>Body</p><h1>Second</h1>'' ''Title''
       = Inr ''<p>Body</p><h1>Second</h1>''
   \<and> count_open ''h1'' two_h1 = 2
   \<and> (\<exists>as cs pre post.
         markup two_h1 = pre @ markup [Tag ''h1'' as cs] @ post
         \<and> filter (is_open ''h1'') pre = []
         \<and> markup (clean_soup two_h1) = pre @ post
         \<and> count_open ''h1'' (clean_soup two_h1) + count_open ''h1'' [Tag ''h1'' as cs]
             = count_open ''h1'' two_h1)"
proof -
  have n: "count_open ''h1'' two_h1 = 2"
    by (simp add: two_h1_def count_open_def)
  have r: "soup_str html_runtime (clean_soup two_h1) = ''<p>Body</p><h1>Second</h1>''"
    by (simp add: html_runtime_def two_h1_def clean_soup_def)
  from clean_soup_removes_first_h1 [OF html_parse, of "''Title''"] n r html_parse
  show ?thesis by simp
qed

text \<open>
  C6 as stated fails where an \<open>h1\<close> is nested in the first one: in
  \<open><h1>A<h1>B</h1></h1><p>C</p>\<close> the second heading goes with the first, and of two
  \<open>h1\<close> elements none is left.
\<close>

theorem first_h1_removal_takes_nested_h1:
  "count_open ''h1'' nested_h1 = 2 \<and> clean_soup nested_h1 = [Tag ''p'' [] [Text ''C'']]
   \<and> count_open ''h1'' (clean_soup nested_h1) = 0"
  by (simp add: nested_h1_def clean_soup_def count_open_def)

section \<open>Images\<close>

lemma rfind_last: "c \<notin> set ys \<Longrightarrow> rfind c (xs @ c # ys) = Some (length xs)"
proof (induction xs)
  case Nil
  have "rfind c ys = None" using Nil by (induction ys) auto
  then show ?case by simp
next
  case (Cons x xs)
  then show ?case by simp
qed

lemma ends_with_split: "ends_with sfx name \<Longrightarrow> \<exists>stem. name = stem @ sfx"
  unfolding ends_with_def by (metis append_take_drop_id)

lemma join_append:
  "xs \<noteq> [] \<Longrightarrow> ys \<noteq> [] \<Longrightarrow> join sep (xs @ ys) = join sep xs @ sep @ join sep ys"
proof (induction sep xs rule: join.induct)
  case (1 sep)
  then show ?case by simp
next
  case (2 sep x)
  then show ?case by (cases ys) simp_all
next
  case (3 sep x y ys')
  then show ?case by simp
qed

lemma path_str_append:
  assumes "directory \<noteq> []" and "\<not> (length directory = 1 \<and> is_root (hd directory))"
    and "rel \<noteq> []"
  shows "path_str (directory @ rel) = path_str directory @ ''/'' @ join ''/'' rel"
proof (cases "is_root (hd directory)")
  case True
  with assms(1,2) have "tl directory \<noteq> []"
    by (cases directory) auto
  with True assms show ?thesis
    by (simp add: path_str_def join_append)
next
  case False
  with assms show ?thesis
    by (simp add: path_str_def join_append)
qed

lemma pattern_shape:
  "sfx \<in> set image_patterns \<Longrightarrow> \<exists>e. sfx = CHR ''.'' # e \<and> CHR ''.'' \<notin> set e \<and> e \<noteq> []"
  by (auto simp: image_patterns_def)

lemma pattern_not_root_name:
  assumes "sfx \<in> set image_patterns" and "ends_with sfx name"
  shows "\<not> is_root name"
proof -
  from ends_with_split [OF assms(2)] obtain stem where "name = stem @ sfx" by blast
  with pattern_shape [OF assms(1)] have "CHR ''.'' \<in> set name" by auto
  then show ?thesis by (auto simp: is_root_def)
qed

lemma path_name_glob:
  assumes "rel \<noteq> []" and "sfx \<in> set image_patterns" and "ends_with sfx (last rel)"
  shows "path_name (directory @ rel) = last rel"
proof -
  have "\<not> is_root (last rel)" using pattern_not_root_name assms(2,3) by blast
  moreover have "length (directory @ rel) = 1 \<Longrightarrow> hd (directory @ rel) = last rel"
    using assms(1) by (cases directory; cases rel) auto
  ultimately show ?thesis
    using assms(1) by (auto simp: path_name_def)
qed

lemma path_suffix_glob:
  assumes "rel \<noteq> []" and "sfx \<in> set image_patterns" and "ends_with sfx (last rel)"
    and "length sfx < length (last rel)"
  shows "path_suffix (directory @ rel) = sfx"
proof -
  from ends_with_split [OF assms(3)] obtain stem where st: "last rel = stem @ sfx" by blast
  from pattern_shape [OF assms(2)] obtain e where
    e: "sfx = CHR ''.'' # e" "CHR ''.'' \<notin> set e" "e \<noteq> []" by blast
  from st assms(4) have ne: "stem \<noteq> []" by auto
  have "rfind CHR ''.'' (stem @ CHR ''.'' # e) = Some (length stem)"
    using e(2) by (rule rfind_last)
  with st e ne show ?thesis
    by (simp add: path_suffix_def path_name_glob [OF assms(1-3)] Let_def)
qed

lemma find_images_glob_set:
  "set (find_images_glob fs directory)
     = {directory @ rel | rel sfx. rel \<in> set (tree fs directory) \<and> rel \<noteq> []
          \<and> sfx \<in> set image_patterns \<and> ends_with sfx (last rel)}"
  by (auto simp: find_images_glob_def glob_rec_def)

lemma add_image_file_items:
  "items (book (fst (add_image_file fs s p parent)))
     = items (book s) @
       (case read_bytes fs p of
          Inl e \<Rightarrow> []
        | Inr c \<Rightarrow> [ImageItem \<lparr> item_uid = path_name p,
                                  item_file_name = drop (length parent + 1) (path_str p),
                                  item_media_type = image_media_type p, item_content = c \<rparr>])"
  by (simp add: add_image_file_def book_add_item_def Let_def split: sum.splits)

lemma add_image_files_items:
  "items (book (add_image_files fs s imgs parent))
     = items (book s) @
       concat (map (\<lambda>p. case read_bytes fs p of
          Inl e \<Rightarrow> []
        | Inr c \<Rightarrow> [ImageItem \<lparr> item_uid = path_name p,
                                  item_file_name = drop (length parent + 1) (path_str p),
                                  item_media_type = image_media_type p, item_content = c \<rparr>]) imgs)"
  by (induction imgs arbitrary: s) (simp_all add: add_image_file_items)

lemma add_image_files_registers:
  assumes "p \<in> set imgs" and "read_bytes fs p = Inr c"
  shows "ImageItem \<lparr> item_uid = path_name p,
                      item_file_name = drop (length parent + 1) (path_str p),
                      item_media_type = image_media_type p, item_content = c \<rparr>
         \<in> set (items (book (add_image_files fs s imgs parent)))"
  using assms by (force simp: add_image_files_items)

lemma lower_jpeg_patterns:
  "lower ''.jpg'' = ''.jpg''" "lower ''.jpeg'' = ''.jpeg''"
  "lower ''.JPG'' = ''.jpg''" "lower ''.JPEG'' = ''.jpeg''"
  by code_simp+

text \<open>
  What holds of discovery and, away from the roots \<open>.\<close> and \<open>/\<close>, of registration: a
  path below the root whose name ends in one of the sixteen suffixes is in the result of
  \<open>find_images_glob\<close>, which has no duplicates and is sorted by path; called with
  \<open>str(root)\<close> as \<open>parent_path\<close>, \<open>add_image_file\<close> registers a readable one under its
  path relative to the root.
\<close>

lemma images_discovered_and_registered:
  assumes "rel \<in> set (tree fs directory)" and "rel \<noteq> []"
    and "sfx \<in> set image_patterns" and "ends_with sfx (last rel)"
  shows "directory @ rel \<in> set (find_images_glob fs directory)
       \<and> distinct (find_images_glob fs directory) \<and> sorted (find_images_glob fs directory)
       \<and> (\<forall>content. read_bytes fs (directory @ rel) = Inr content
              \<and> directory \<noteq> [] \<and> \<not> (length directory = 1 \<and> is_root (hd directory)) \<longrightarrow>
            add_image_file fs s (directory @ rel) (path_str directory)
              = (book_add_item s (ImageItem
                   \<lparr> item_uid = last rel, item_file_name = join ''/'' rel,
                     item_media_type = image_media_type (directory @ rel),
                     item_content = content \<rparr>), True)
            \<and> ImageItem \<lparr> item_uid = last rel, item_file_name = join ''/'' rel,
                           item_media_type = image_media_type (directory @ rel),
                           item_content = content \<rparr>
                \<in> set (items (book (add_image_files fs s (find_images_glob fs directory)
                                       (path_str directory)))))
       \<and> (sfx \<in> {''.jpg'', ''.jpeg'', ''.JPG'', ''.JPEG''} \<and> length sfx < length (last rel) \<longrightarrow>
            image_media_type (directory @ rel) = ''image/jpeg'')"
proof -
  have found: "directory @ rel \<in> set (find_images_glob fs directory)"
    using assms by (auto simp: find_images_glob_set)
  have order: "distinct (find_images_glob fs directory) \<and> sorted (find_images_glob fs directory)"
    by (simp add: find_images_glob_def)
  have reg: "add_image_file fs s (directory @ rel) (path_str directory)
              = (book_add_item s (ImageItem
                   \<lparr> item_uid = last rel, item_file_name = join ''/'' rel,
                     item_media_type = image_media_type (directory @ rel),
                     item_content = content \<rparr>), True)
            \<and> ImageItem \<lparr> item_uid = last rel, item_file_name = join ''/'' rel,
                           item_media_type = image_media_type (directory @ rel),
                           item_content = content \<rparr>
                \<in> set (items (book (add_image_files fs s (find_images_glob fs directory)
                                       (path_str directory))))"
    if "read_bytes fs (directory @ rel) = Inr content" "directory \<noteq> []"
      "\<not> (length directory = 1 \<and> is_root (hd directory))" for content
  proof -
    have str: "path_str (directory @ rel) = path_str directory @ ''/'' @ join ''/'' rel"
      by (rule path_str_append [OF that(2,3) assms(2)])
    have name: "path_name (directory @ rel) = last rel"
      by (rule path_name_glob [OF assms(2-4)])
    have one: "add_image_file fs s (directory @ rel) (path_str directory)
              = (book_add_item s (ImageItem
                   \<lparr> item_uid = last rel, item_file_name = join ''/'' rel,
                     item_media_type = image_media_type (directory @ rel),
                     item_content = content \<rparr>), True)"
      using that(1) by (simp add: add_image_file_def Let_def str name)
    from add_image_files_registers [OF found that(1), of "path_str directory" s]
    have "ImageItem \<lparr> item_uid = last rel, item_file_name = join ''/'' rel,
                       item_media_type = image_media_type (directory @ rel),
                       item_content = content \<rparr>
            \<in> set (items (book (add_image_files fs s (find_images_glob fs directory)
                                   (path_str directory))))"
      by (simp add: str name)
    with one show ?thesis by simp
  qed
  have jpeg: "image_media_type (directory @ rel) = ''image/jpeg''"
    if "sfx \<in> {''.jpg'', ''.jpeg'', ''.JPG'', ''.JPEG''}" "length sfx < length (last rel)"
    using that path_suffix_glob [OF assms(2-4) that(2), of directory]
    by (auto simp: image_media_type_def Let_def lower_jpeg_patterns)
  from found order reg jpeg show ?thesis by blast
qed

lemma sample_jpg_listed: "[''sub'', ''b.jpg''] \<in> set (tree sample_fs [''book''])"
  by (simp add: sample_fs_def)

lemma images_discovered_and_registered_example:
  "[''sub'', ''b.jpg''] \<in> set (tree sample_fs [''book'']) \<and> ''.jpg'' \<in> set image_patterns
   \<and> ends_with ''.jpg'' ''b.jpg''
   \<and> [''book'', ''sub'', ''b.jpg''] \<in> set (find_images_glob sample_fs [''book''])
   \<and> add_image_file sample_fs sample_converter [''book'', ''sub'', ''b.jpg''] ''book''
       = (book_add_item sample_converter (ImageItem
            \<lparr> item_uid = ''b.jpg'', item_file_name = ''sub/b.jpg'',
              item_media_type = ''image/jpeg'', item_content = ''JFIF'' \<rparr>), True)
   \<and> ImageItem \<lparr> item_uid = ''b.jpg'', item_file_name = ''sub/b.jpg'',
                  item_media_type = ''image/jpeg'', item_content = ''JFIF'' \<rparr>
       \<in> set (items (book (add_image_files sample_fs sample_converter
                              (find_images_glob sample_fs [''book'']) ''book'')))"
proof -
  have p: "''.jpg'' \<in> set image_patterns"
    by (simp add: image_patterns_def)
  have e: "ends_with ''.jpg'' (last [''sub'', ''b.jpg''])"
    by (simp add: ends_with_def)
  have r: "read_bytes sample_fs ([''book''] @ [''sub'', ''b.jpg'']) = Inr ''JFIF''"
    by (simp add: sample_fs_def)
  have d: "path_str [''book''] = ''book''" "\<not> is_root ''book''"
    by (simp_all add: path_str_def is_root_def)
  note t = images_discovered_and_registered [OF sample_jpg_listed _ p e, of sample_converter]
  from t d have j: "image_media_type [''book'', ''sub'', ''b.jpg''] = ''image/jpeg''"
    by simp
  from t r d p e sample_jpg_listed show ?thesis
    by (simp add: j)
qed

text \<open>
  The patterns are matched with case: \<open>a.Png\<close> is below the root, is readable and has
  the extension \<open>png\<close> up to case, and it is not discovered.
\<close>

lemma mixed_case_extension_not_discovered:
  "[''a.Png''] \<in> set (tree sample_fs [''book''])
   \<and> read_bytes sample_fs [''book'', ''a.Png''] = Inr ''PNG''
   \<and> lower (path_suffix [''book'', ''a.Png'']) = ''.png''
   \<and> find_images_glob sample_fs [''book''] = [[''book'', ''a.PNG''], [''book'', ''sub'', ''b.jpg'']]"
  by code_simp

text \<open>
  C7. The claim: an image below the root is registered with the path that is left when
  the root and its separator are stripped. Run on the current directory, \<open>.\<close>, which
  holds \<open>a.png\<close> and \<open>sub/b.jpg\<close>, the program registers them as \<open>png\<close> and
  \<open>b/b.jpg\<close>: the paths \<open>Path('.').glob\<close> yields do not start with \<open>./\<close>, and lines
  105-108 cut \<open>len('.') + 1\<close> characters all the same.
\<close>

theorem image_paths_mangled_in_current_directory:
  "path_str (path_of_str ''.'') = ''.''
   \<and> find_images_glob dot_fs (path_of_str ''.'') = [[''a.png''], [''sub'', ''b.jpg'']]
   \<and> (case main sample_runtime dot_fs ''0000'' () [''create-ebook.py'', ''.''] of
         Inl e \<Rightarrow> []
       | Inr (c, ok) \<Rightarrow> image_items (items (book c)))
       = [\<lparr> item_uid = ''a.png'', item_file_name = ''png'',
             item_media_type = ''image/png'', item_content = ''PNG'' \<rparr>,
          \<lparr> item_uid = ''b.jpg'', item_file_name = ''b/b.jpg'',
             item_media_type = ''image/jpeg'', item_content = ''JFIF'' \<rparr>]"
  by code_simp

section \<open>Chapters\<close>

lemma ord_digit: "d < 10 \<Longrightarrow> ord (char_of (48 + d)) - 48 = d"
  by (simp add: ord_def)

lemma nat_of_digits_snoc: "nat_of_digits (ds @ [c]) = 10 * nat_of_digits ds + (ord c - 48)"
  by (simp add: nat_of_digits_def)

lemma nat_of_digits_str_nat: "nat_of_digits (str_nat n) = n"
proof (induction n rule: str_nat.induct)
  case (1 n)
  show ?case
  proof (cases "n < 10")
    case True
    then show ?thesis
      by (subst str_nat.simps) (simp add: nat_of_digits_def ord_digit)
  next
    case False
    then have "nat_of_digits (str_nat (n div 10)) = n div 10"
      using "1.IH" by simp
    with False show ?thesis
      by (subst str_nat.simps) (simp add: nat_of_digits_snoc ord_digit)
  qed
qed

lemma str_nat_inj: "str_nat a = str_nat b \<Longrightarrow> a = b"
  by (metis nat_of_digits_str_nat)

lemma chapter_id_inj: "chapter_id a = chapter_id b \<Longrightarrow> a = b"
  using str_nat_inj [of "a + 1" "b + 1"] by (simp add: chapter_id_def)

lemma chapter_ids_distinct: "distinct (map chapter_id [0..<n])"
  by (simp add: distinct_map inj_on_def) (auto dest: chapter_id_inj)

lemma chapter_ids_one_based:
  "map chapter_id [0..<n] = map (\<lambda>k. ''chapter_'' @ str_nat k) [1..<Suc n]"
  by (induction n) (simp_all add: chapter_id_def)

lemma add_markdown_file_cases:
  assumes "add_markdown_file rt fs s md_path t = (s', ok)"
  shows "if ok
         then (\<exists>ch. store s' = store s @ [ch]
                 \<and> ch_file_name ch = chapter_id (length (chapters s)) @ ''.xhtml''
                 \<and> chapters s' = chapters s @ [length (store s)]
                 \<and> spine s' = spine s @ [SChapter (length (store s))]
                 \<and> items (book s') = items (book s) @ [HtmlItem (length (store s))])
         else (store s' = store s \<and> chapters s' = chapters s \<and> spine s' = spine s
                 \<and> book s' = book s)"
  using assms
  by (auto simp: add_markdown_file_def book_add_html_def Let_def
      split: sum.splits prod.splits if_splits)

lemma sample_file_ok:
  "add_markdown_file sample_runtime sample_fs sample_converter [''book'', ''ch1.md''] None
   = (\<lparr> book = \<lparr> book_identifier = ''0000'', book_title = ''book'', book_language = ''en'',
                 book_authors = [''Unknown''], items = [HtmlItem 0],
                 toc = [], book_spine = [], cover = None \<rparr>,
       chapters = [0], spine = [SNav, SChapter 0],
       store = [\<lparr> ch_id = Some ''id0'', ch_file_name = ''chapter_1.xhtml'', ch_title = ''One'',
                  ch_lang = ''en'', ch_content = ''<p># One\<newline>text</p>'', ch_links = [] \<rparr>],
       md = () \<rparr>, True)"
  by code_simp

lemma sample_file_fails:
  "add_markdown_file sample_runtime sample_fs sample_converter [''book'', ''ch2.md''] None
   = (sample_converter, False)"
  by code_simp

text \<open>
  C10. When \<open>add_markdown_file\<close> returns false, the chapter list, the spine, the book's
  items and the chapter objects are what they were; when it returns true, one new chapter
  object exists and its address is appended to the chapter list, to the spine and to the
  book's items.
\<close>

theorem add_markdown_file_all_or_nothing:
  assumes "add_markdown_file rt fs s md_path chapter_title = (s', ok)"
  shows "if ok
         then (\<exists>ch. store s' = store s @ [ch]
                 \<and> chapters s' = chapters s @ [length (store s)]
                 \<and> spine s' = spine s @ [SChapter (length (store s))]
                 \<and> items (book s') = items (book s) @ [HtmlItem (length (store s))])
         else (chapters s' = chapters s \<and> spine s' = spine s
                 \<and> items (book s') = items (book s) \<and> store s' = store s)"
  using add_markdown_file_cases [OF assms] by (cases ok) auto

theorem add_markdown_file_all_or_nothing_witness:
  "add_markdown_file sample_runtime sample_fs sample_converter [''book'', ''ch2.md''] None
     = (sample_converter, False)
   \<and> snd (add_markdown_file sample_runtime sample_fs sample_converter [''book'', ''ch1.md''] None)
   \<and> chapters (fst (add_markdown_file sample_runtime sample_fs sample_converter
                       [''book'', ''ch1.md''] None)) = chapters sample_converter @ [0]
   \<and> spine (fst (add_markdown_file sample_runtime sample_fs sample_converter
                    [''book'', ''ch1.md''] None)) = spine sample_converter @ [SChapter 0]"
proof -
  have start: "chapters sample_converter = []" "spine sample_converter = [SNav]"
    by (simp_all add: sample_converter_def init_def)
  from add_markdown_file_all_or_nothing [OF sample_file_fails]
    add_markdown_file_all_or_nothing [OF sample_file_ok]
  show ?thesis
    by (simp add: sample_file_fails sample_file_ok start)
qed

lemma converter_inv_init: "converter_inv (init uid m title author language)"
  by (simp add: converter_inv_def init_def file_names_def)

lemma add_markdown_file_inv:
  assumes "add_markdown_file rt fs s md_path t = (s', ok)" and "converter_inv s"
  shows "converter_inv s' \<and> length (chapters s') = length (chapters s) + (if ok then 1 else 0)"
proof (cases ok)
  case False
  with add_markdown_file_cases [OF assms(1)] assms(2) show ?thesis
    by (simp add: converter_inv_def file_names_def)
next
  case True
  with add_markdown_file_cases [OF assms(1)] obtain ch where
    st: "store s' = store s @ [ch]"
    and fn: "ch_file_name ch = chapter_id (length (chapters s)) @ ''.xhtml''"
    and chs: "chapters s' = chapters s @ [length (store s)]"
    and sp: "spine s' = spine s @ [SChapter (length (store s))]"
    by auto
  have old: "map (\<lambda>a. ch_file_name ((store s @ [ch]) ! a)) (chapters s)
             = map (\<lambda>a. ch_file_name (store s ! a)) (chapters s)"
    using assms(2) by (auto simp: converter_inv_def list_all_iff nth_append)
  have "file_names s' = file_names s @ [chapter_id (length (chapters s)) @ ''.xhtml'']"
    by (simp add: file_names_def st chs old fn)
  moreover have "list_all (\<lambda>a. a < length (store s')) (chapters s')"
    using assms(2) by (auto simp: converter_inv_def list_all_iff st chs)
  moreover have "spine s' = SNav # map SChapter (chapters s')"
    using assms(2) by (simp add: converter_inv_def sp chs)
  ultimately show ?thesis
    using assms(2) True by (simp add: converter_inv_def chs)
qed

lemma add_markdown_files_inv:
  "add_markdown_files rt fs s files = (s', n) \<Longrightarrow> converter_inv s \<Longrightarrow>
     converter_inv s' \<and> length (chapters s') = length (chapters s) + n \<and> n \<le> length files"
proof (induction files arbitrary: s s' n)
  case Nil
  then show ?case by simp
next
  case (Cons f files)
  obtain s1 ok where f: "add_markdown_file rt fs s f None = (s1, ok)"
    by (cases "add_markdown_file rt fs s f None")
  obtain s2 k where r: "add_markdown_files rt fs s1 files = (s2, k)"
    by (cases "add_markdown_files rt fs s1 files")
  from Cons.prems(1) f r have eq: "s' = s2" "n = (if ok then 1 else 0) + k"
    by simp_all
  from add_markdown_file_inv [OF f Cons.prems(2)]
  have s1: "converter_inv s1" "length (chapters s1) = length (chapters s) + (if ok then 1 else 0)"
    by simp_all
  from Cons.IH [OF r s1(1)] s1(2) eq show ?case
    by auto
qed

lemma add_image_file_frame:
  "store (fst (add_image_file fs s p parent)) = store s
   \<and> chapters (fst (add_image_file fs s p parent)) = chapters s
   \<and> spine (fst (add_image_file fs s p parent)) = spine s"
  by (auto simp: add_image_file_def book_add_item_def Let_def split: sum.splits)

lemma converter_inv_frame:
  "store s' = store s \<Longrightarrow> chapters s' = chapters s \<Longrightarrow> spine s' = spine s \<Longrightarrow>
     converter_inv s' = converter_inv s"
  by (simp add: converter_inv_def file_names_def)

lemma add_image_file_inv: "converter_inv s \<Longrightarrow> converter_inv (fst (add_image_file fs s p parent))"
  using add_image_file_frame [of fs s p parent] converter_inv_frame by blast

lemma add_image_files_inv:
  "converter_inv s \<Longrightarrow> converter_inv (add_image_files fs s imgs parent)"
  by (induction imgs arbitrary: s) (simp_all add: add_image_file_inv)

lemma add_markdown_directory_inv:
  assumes "add_markdown_directory rt fs s d = Inr (s', ok)" and "converter_inv s"
  shows "converter_inv s'"
proof -
  have "\<And>fl s1 n. add_markdown_files rt fs s fl = (s1, n) \<Longrightarrow> converter_inv s1"
    using add_markdown_files_inv assms(2) by blast
  then show ?thesis
    using assms
    by (auto simp: add_markdown_directory_def Let_def add_image_files_inv
        split: if_splits sum.splits prod.splits)
qed

lemma link_all_length:
  "length (foldl (\<lambda>st a. st[a := chapter_add_item (st ! a) it]) st as) = length st"
  by (induction as arbitrary: st) simp_all

lemma link_all_file_name:
  "ch_file_name (foldl (\<lambda>st a. st[a := chapter_add_item (st ! a) it]) st as ! i)
     = ch_file_name (st ! i)"
proof (induction as arbitrary: st)
  case Nil
  show ?case by simp
next
  case (Cons a as)
  have "ch_file_name (st[a := chapter_add_item (st ! a) it] ! i) = ch_file_name (st ! i)"
    by (cases "a < length st") (simp_all add: nth_list_update chapter_add_item_def list_update_beyond)
  with Cons.IH show ?case by simp
qed

lemma add_custom_css_inv: "converter_inv s \<Longrightarrow> converter_inv (fst (add_custom_css rt s css))"
  by (simp add: converter_inv_def file_names_def add_custom_css_def book_add_item_def Let_def
      link_all_length link_all_file_name)

lemma add_cover_image_same: "fst (add_cover_image fs s p) = s"
  by (simp add: add_cover_image_def lookup_global_def module_globals_def Let_def split: sum.splits)

lemma generate_epub_frame:
  "chapters (fst (generate_epub rt s out)) = chapters s
   \<and> spine (fst (generate_epub rt s out)) = spine s
   \<and> (store (fst (generate_epub rt s out)) = store s
       \<or> store (fst (generate_epub rt s out)) = store (fst (add_custom_css rt s None)))"
  by (simp add: generate_epub_def add_custom_css_def book_add_item_def Let_def split: sum.splits)

lemma generate_epub_inv: "converter_inv s \<Longrightarrow> converter_inv (fst (generate_epub rt s out))"
proof -
  assume inv: "converter_inv s"
  let ?s' = "fst (generate_epub rt s out)"
  let ?c = "fst (add_custom_css rt s None)"
  have c: "chapters ?c = chapters s" "spine ?c = spine s"
    by (simp_all add: add_custom_css_def book_add_item_def Let_def)
  from generate_epub_frame [of rt s out]
  have "converter_inv ?s' = converter_inv s \<or> converter_inv ?s' = converter_inv ?c"
    using converter_inv_frame [of ?s' s] converter_inv_frame [of ?s' ?c] c by auto
  with inv add_custom_css_inv [OF inv, of rt None] show ?thesis by auto
qed

lemma reachable_inv: "reachable rt fs s \<Longrightarrow> converter_inv s"
proof (induction rule: reachable.induct)
  case (reach_init uid m title author language)
  show ?case by (rule converter_inv_init)
next
  case (reach_file s md_path t)
  then show ?case
    using add_markdown_file_inv [of rt fs s md_path t] by (metis prod.collapse)
next
  case (reach_image s img_path parent)
  then show ?case by (simp add: add_image_file_inv)
next
  case (reach_directory s d s' ok)
  then show ?case using add_markdown_directory_inv by blast
next
  case (reach_css s css)
  then show ?case by (simp add: add_custom_css_inv)
next
  case (reach_cover s image_path)
  then show ?case by (simp add: add_cover_image_same)
next
  case (reach_generate s out)
  then show ?case by (simp add: generate_epub_inv)
qed

lemma sample_directory: 
  "add_markdown_directory sample_runtime sample_fs sample_converter ''book'' = Inr (sample_loaded, True)"
  by code_simp


lemma sample_reachable: "reachable sample_runtime sample_fs sample_converter"
  unfolding sample_converter_def by (rule reach_init)



















section \<open>Emission\<close>

lemma sample_loaded_reachable: "reachable sample_runtime sample_fs sample_loaded"
  using reach_directory [OF sample_reachable sample_directory] .

lemma sample_generate:
  "generate_epub sample_runtime sample_loaded ''./output/book.epub''
     = (fst (generate_epub sample_runtime sample_loaded ''./output/book.epub''), True)"
  by code_simp

text \<open>
  C9. When \<open>generate_epub\<close> runs on a reachable converter with n chapters, n at least 1,
  the spine it sets on the book is the navigation entry followed by the n chapters in
  insertion order, and the table of contents has one entry per chapter, in that order,
  made of the chapter's file name, title and id, each with an empty list of children.
\<close>

theorem generate_epub_spine_and_toc:
  assumes "reachable rt fs s" and "chapters s \<noteq> []"
    and "generate_epub rt s output_path = (s', ok)"
  shows "book_spine (book s') = SNav # map SChapter (chapters s)
       \<and> length (book_spine (book s')) = length (chapters s) + 1
       \<and> chapters s' = chapters s
       \<and> toc (book s') = map (\<lambda>a. TocNode (Link (ch_file_name (store s' ! a))
                                    (ch_title (store s' ! a)) (ch_id (store s' ! a))) [])
                             (chapters s)
       \<and> length (toc (book s')) = length (chapters s)"
proof -
  from reachable_inv [OF assms(1)] have sp: "spine s = SNav # map SChapter (chapters s)"
    by (simp add: converter_inv_def)
  from assms(2,3) sp show ?thesis
    by (auto simp: generate_epub_def add_custom_css_def book_add_item_def Let_def
        split: sum.splits)
qed

theorem generate_epub_spine_and_toc_witness:
  "reachable sample_runtime sample_fs sample_loaded \<and> chapters sample_loaded = [0, 1]
   \<and> book_spine (book (fst (generate_epub sample_runtime sample_loaded ''./output/book.epub'')))
       = [SNav, SChapter 0, SChapter 1]
   \<and> toc (book (fst (generate_epub sample_runtime sample_loaded ''./output/book.epub'')))
       = [TocNode (Link ''chapter_1.xhtml'' ''One'' (Some ''id0'')) [],
          TocNode (Link ''chapter_2.xhtml'' ''Ten'' (Some ''id1'')) []]"
proof -
  have ch: "chapters sample_loaded = [0, 1]"
    by (simp add: sample_loaded_def)
  have toc: "toc (book (fst (generate_epub sample_runtime sample_loaded ''./output/book.epub'')))
       = [TocNode (Link ''chapter_1.xhtml'' ''One'' (Some ''id0'')) [],
          TocNode (Link ''chapter_2.xhtml'' ''Ten'' (Some ''id1'')) []]"
    by code_simp
  from generate_epub_spine_and_toc [OF sample_loaded_reachable _ sample_generate] ch toc
  show ?thesis
    by (simp add: sample_loaded_reachable)
qed

end
